theory Spec2Isabelle
  imports Main "HOL-Library.Word" "HOL-Library.Signed_Division" "HOL-Library.AList"
begin

section \<open>Machine integers\<close>

text \<open>
  Block heights, the change height and \<open>dkgNumBlocks\<close> are Go \<open>int64\<close>: addition and
  subtraction wrap around, comparisons are signed, and \<open>%\<close> truncates towards zero (the
  remainder has the sign of the dividend). The tx builder's sequence number is a
  \<open>uint64\<close>. Round ids are Go \<open>int\<close>; the code only compares them and counts them up by
  one, so they are kept as mathematical integers.
\<close>

type_synonym int64 = "64 word"
type_synonym uint64 = "64 word"
type_synonym bytes = "8 word list"

definition int64_rem :: "int64 \<Rightarrow> int64 \<Rightarrow> int64" where
  "int64_rem a b = word_of_int (sint a smod sint b)"

section \<open>Errors and results\<close>

text \<open>
  A Go \<open>error\<close> is a value; \<open>nil\<close> is \<open>None\<close> of \<open>error option\<close>. Two sentinels are
  compared by identity in the source: \<open>ErrVerifierNotReady\<close>, declared in the off-chain
  package, and \<open>types.ErrDKGVerifierNotReady\<close>, which the on-chain package compares against.
  \<open>Err\<close> is any other error of a collaborator, \<open>Errorf p e\<close> is
  \<open>fmt.Errorf(p + ": %v", e)\<close>. A call either returns or panics.
\<close>

datatype error =
    ErrVerifierNotReady
  | ErrDKGVerifierNotReady
  | Err string
  | Errorf string error

datatype 'a result = Returns 'a | Panics

section \<open>Messages\<close>

text \<open>
  Modelled from the spec: the declarations of \<open>alias.DKGDataType\<close>, \<open>alias.DKGData\<close>,
  \<open>types.DKGDataMessage\<close> and \<open>msgs.MsgSendDKGData\<close> are not among the sources. The spec
  gives the seven ordered phase types, with ordinals 0 to 6, and the fields type, round
  id, sender address, payload and signature.
\<close>

datatype DKGDataType =
    DKGPubKey
  | DKGDeal
  | DKGResponse
  | DKGJustification
  | DKGCommits
  | DKGComplaint
  | DKGReconstructCommit

record DKGData =
  Type :: DKGDataType
  RoundID :: int
  Addr :: bytes
  Payload :: bytes
  Signature :: bytes

record DKGDataMessage =
  Data :: DKGData

record MsgSendDKGData =
  SendData :: DKGData
  Owner :: bytes

text \<open>Collaborators the coordinators only hand around are opaque handles.\<close>

datatype Verifier = Verifier nat
datatype Validator = Validator nat
datatype PrivValidator = PrivValidator nat
datatype Logger = Logger nat
datatype EventSwitch = EventSwitch nat
datatype PubKey = PubKey nat

type_synonym ValidatorSet = "Validator list"

section \<open>The dealer interface\<close>

text \<open>
  \<open>dkglib.Dealer\<close> is an interface whose implementation is not among the sources. A dealer
  is an object with a state of type \<open>'d\<close>; every method may change that state and returns
  what the Go method returns. The messages a dealer emits go through the sink it was
  constructed with; the sink touches none of the coordinator fields modelled below.
\<close>

record 'd Dealer =
  Start :: "'d \<Rightarrow> error option \<times> 'd"
  VerifyMessage :: "DKGDataMessage \<Rightarrow> 'd \<Rightarrow> error option \<times> 'd"
  HandleDKGPubKey :: "DKGData \<Rightarrow> 'd \<Rightarrow> error option \<times> 'd"
  HandleDKGDeal :: "DKGData \<Rightarrow> 'd \<Rightarrow> error option \<times> 'd"
  HandleDKGResponse :: "DKGData \<Rightarrow> 'd \<Rightarrow> error option \<times> 'd"
  HandleDKGJustification :: "DKGData \<Rightarrow> 'd \<Rightarrow> error option \<times> 'd"
  HandleDKGCommit :: "DKGData \<Rightarrow> 'd \<Rightarrow> error option \<times> 'd"
  HandleDKGComplaint :: "DKGData \<Rightarrow> 'd \<Rightarrow> error option \<times> 'd"
  HandleDKGReconstructCommit :: "DKGData \<Rightarrow> 'd \<Rightarrow> error option \<times> 'd"
  GetVerifier :: "'d \<Rightarrow> (Verifier option \<times> error option) \<times> 'd"
  GetLosers :: "'d \<Rightarrow> Validator list \<times> 'd"

text \<open>
  The \<open>switch\<close> over the phase type, which both coordinators contain: each of the seven
  types selects the dealer's handler of the same name.
\<close>

fun handlerFor :: "'d Dealer \<Rightarrow> DKGDataType \<Rightarrow> DKGData \<Rightarrow> 'd \<Rightarrow> error option \<times> 'd" where
  "handlerFor D DKGPubKey = HandleDKGPubKey D"
| "handlerFor D DKGDeal = HandleDKGDeal D"
| "handlerFor D DKGResponse = HandleDKGResponse D"
| "handlerFor D DKGJustification = HandleDKGJustification D"
| "handlerFor D DKGCommits = HandleDKGCommit D"
| "handlerFor D DKGComplaint = HandleDKGComplaint D"
| "handlerFor D DKGReconstructCommit = HandleDKGReconstructCommit D"

section \<open>The off-chain coordinator\<close>

definition BlocksAhead :: int64 where
  "BlocksAhead = 20"

definition DefaultDKGNumBlocks :: int64 where
  "DefaultDKGNumBlocks = 100"

datatype event =
    EventDKGStart int
  | EventDKGSuccessful int64
  | EventDKGKeyChange int64

text \<open>
  The struct \<open>OffChainDKG\<close>. Dealers are objects on a heap: \<open>dealers\<close> maps an address to
  the state of the dealer there and \<open>allocated\<close> is the next free address. The map
  \<open>dkgRoundToDealer\<close> holds for a round id either the address of its dealer or \<open>nil\<close>
  (\<open>None\<close>); a key that is absent has no pair in the list. \<open>fired\<close> is the sequence of
  events the coordinator itself fired on the event switch, \<open>slashLog\<close> the validators that
  \<open>slashLosers\<close> logged. The mutex and the message queue play no part in the sequential
  behaviour of the functions below; the logger and the event switch are taken to be set,
  as the spec requires.
\<close>

record 'd OffChainDKG =
  verifier :: "Verifier option"
  nextVerifier :: "Verifier option"
  changeHeight :: int64
  dkgRoundToDealer :: "(int \<times> nat option) list"
  dkgRoundID :: int
  dkgNumBlocks :: int64
  newDKGDealer :: "ValidatorSet \<Rightarrow> int \<Rightarrow> 'd"
  privValidator :: "PrivValidator option"
  logger :: "Logger option"
  evsw :: EventSwitch
  chainID :: string
  dealers :: "nat \<Rightarrow> 'd"
  allocated :: nat
  fired :: "event list"
  slashLog :: "Validator list"

type_synonym 'd DKGOption = "'d OffChainDKG \<Rightarrow> 'd OffChainDKG"

definition WithVerifier :: "Verifier option \<Rightarrow> 'd DKGOption" where
  "WithVerifier v d = d\<lparr>verifier := v\<rparr>"

definition WithDKGNumBlocks :: "int64 \<Rightarrow> 'd DKGOption" where
  "WithDKGNumBlocks numBlocks d = d\<lparr>dkgNumBlocks := numBlocks\<rparr>"

definition WithLogger :: "Logger option \<Rightarrow> 'd DKGOption" where
  "WithLogger l d = d\<lparr>logger := l\<rparr>"

definition WithPVKey :: "PrivValidator option \<Rightarrow> 'd DKGOption" where
  "WithPVKey pv d = d\<lparr>privValidator := pv\<rparr>"

definition WithDKGDealerConstructor :: "(ValidatorSet \<Rightarrow> int \<Rightarrow> 'd) option \<Rightarrow> 'd DKGOption" where
  "WithDKGDealerConstructor newDealer d =
     (case newDealer of None \<Rightarrow> d | Some c \<Rightarrow> d\<lparr>newDKGDealer := c\<rparr>)"

text \<open>
  \<open>NewOffChainDKG\<close>. Its first argument stands for \<open>dkglib.NewDKGDealer\<close>, the default
  constructor, and \<open>heap\<close> for the memory before any dealer is allocated.
\<close>

definition NewOffChainDKG ::
  "(ValidatorSet \<Rightarrow> int \<Rightarrow> 'd) \<Rightarrow> (nat \<Rightarrow> 'd) \<Rightarrow> EventSwitch \<Rightarrow> string \<Rightarrow> 'd DKGOption list
    \<Rightarrow> 'd OffChainDKG" where
  "NewOffChainDKG NewDKGDealer heap ev chain options =
     (let dkg = \<lparr>verifier = None, nextVerifier = None, changeHeight = 0,
                 dkgRoundToDealer = [], dkgRoundID = 0,
                 dkgNumBlocks = DefaultDKGNumBlocks, newDKGDealer = NewDKGDealer,
                 privValidator = None, logger = None, evsw = ev, chainID = chain,
                 dealers = heap, allocated = 0, fired = [], slashLog = []\<rparr>;
          dkg = fold (\<lambda>option d. option d) options dkg
      in if dkgNumBlocks dkg = 0 then dkg\<lparr>dkgNumBlocks := DefaultDKGNumBlocks\<rparr> else dkg)"

definition slashLosers :: "Validator list \<Rightarrow> 'd OffChainDKG \<Rightarrow> 'd OffChainDKG" where
  "slashLosers losers m = m\<lparr>slashLog := slashLog m @ losers\<rparr>"

definition FireEvent :: "event \<Rightarrow> 'd OffChainDKG \<Rightarrow> 'd OffChainDKG" where
  "FireEvent e m = m\<lparr>fired := fired m @ [e]\<rparr>"

text \<open>
  The first step of \<open>HandleOffChainShare\<close>: the dealer of the message's round is looked
  up; a round without an entry gets a new dealer, which is entered into the map and
  started (the call panics when \<open>Start\<close> fails). The result is what the variable
  \<open>dealer\<close> holds afterwards: an address, or \<open>None\<close> for a \<open>nil\<close> entry.
\<close>

definition dealerOfRound ::
  "'d Dealer \<Rightarrow> DKGData \<Rightarrow> ValidatorSet \<Rightarrow> 'd OffChainDKG \<Rightarrow> nat option result \<times> 'd OffChainDKG" where
  "dealerOfRound D msg validators m =
     (case map_of (dkgRoundToDealer m) (RoundID msg) of
        Some dealer \<Rightarrow> (Returns dealer, m)
      | None \<Rightarrow>
          (let a = allocated m;
               m1 = m\<lparr>dkgRoundToDealer := AList.update (RoundID msg) (Some a) (dkgRoundToDealer m),
                      allocated := Suc a\<rparr>;
               (err, d) = Start D (newDKGDealer m validators (RoundID msg));
               m2 = m1\<lparr>dealers := (dealers m1)(a := d)\<rparr>
           in case err of Some e \<Rightarrow> (Panics, m2) | None \<Rightarrow> (Returns (Some a), m2)))"

text \<open>
  The loop "killing older rounds": it ranges over the keys of the map and, for every
  key below the round of the message, assigns \<open>nil\<close> to the entry of the message's round.
\<close>

definition killOlderRounds :: "int \<Rightarrow> (int \<times> nat option) list \<Rightarrow> (int \<times> nat option) list" where
  "killOlderRounds msgRoundID reg =
     fold (\<lambda>roundID r. if roundID < msgRoundID then AList.update msgRoundID None r else r)
          (map fst reg) reg"

definition stagedChangeHeight :: "int64 \<Rightarrow> int64" where
  "stagedChangeHeight height = (height + BlocksAhead) - int64_rem (height + BlocksAhead) 5"

definition HandleOffChainShare ::
  "'d Dealer \<Rightarrow> DKGDataMessage \<Rightarrow> int64 \<Rightarrow> ValidatorSet \<Rightarrow> PubKey \<Rightarrow> 'd OffChainDKG
    \<Rightarrow> bool result \<times> 'd OffChainDKG" where
  "HandleOffChainShare D dkgMsg height validators pubKey m =
     (let msg = Data dkgMsg in
      case dealerOfRound D msg validators m of
        (Panics, m1) \<Rightarrow> (Panics, m1)
      | (Returns None, m1) \<Rightarrow> (Returns False, m1)
      | (Returns (Some a), m1) \<Rightarrow>
          (case VerifyMessage D dkgMsg (dealers m1 a) of
             (Some err, d1) \<Rightarrow> (Returns False, m1\<lparr>dealers := (dealers m1)(a := d1)\<rparr>)
           | (None, d1) \<Rightarrow>
               (case handlerFor D (Type msg) msg d1 of
                  (Some err, d2) \<Rightarrow>
                    (let (losers, d3) = GetLosers D d2;
                         m2 = slashLosers losers (m1\<lparr>dealers := (dealers m1)(a := d3)\<rparr>)
                     in (Returns False,
                         m2\<lparr>dkgRoundToDealer :=
                              AList.update (RoundID msg) None (dkgRoundToDealer m2)\<rparr>))
                | (None, d2) \<Rightarrow>
                    (case GetVerifier D d2 of
                       ((v, Some err), d3) \<Rightarrow>
                         if err = ErrVerifierNotReady
                         then (Returns False, m1\<lparr>dealers := (dealers m1)(a := d3)\<rparr>)
                         else
                           (let (losers, d4) = GetLosers D d3;
                                m2 = slashLosers losers (m1\<lparr>dealers := (dealers m1)(a := d4)\<rparr>)
                            in (Returns True,
                                m2\<lparr>dkgRoundToDealer :=
                                     AList.update (RoundID msg) None (dkgRoundToDealer m2)\<rparr>))
                     | ((v, None), d3) \<Rightarrow>
                         (let m2 = m1\<lparr>dealers := (dealers m1)(a := d3)\<rparr>;
                              m3 = m2\<lparr>dkgRoundToDealer :=
                                        killOlderRounds (RoundID msg) (dkgRoundToDealer m2)\<rparr>;
                              m4 = m3\<lparr>nextVerifier := v\<rparr>;
                              m5 = m4\<lparr>changeHeight := stagedChangeHeight height\<rparr>
                          in (Returns False,
                              FireEvent (EventDKGSuccessful (changeHeight m5)) m5))))))"

definition startRound ::
  "'d Dealer \<Rightarrow> ValidatorSet \<Rightarrow> 'd OffChainDKG \<Rightarrow> error option \<times> 'd OffChainDKG" where
  "startRound D validators m =
     (let m1 = m\<lparr>dkgRoundID := dkgRoundID m + 1\<rparr> in
      case map_of (dkgRoundToDealer m1) (dkgRoundID m1) of
        None \<Rightarrow>
          (let a = allocated m1;
               m2 = m1\<lparr>dkgRoundToDealer :=
                         AList.update (dkgRoundID m1) (Some a) (dkgRoundToDealer m1),
                       allocated := Suc a\<rparr>;
               m3 = FireEvent (EventDKGStart (dkgRoundID m2)) m2;
               (err, d) = Start D (newDKGDealer m1 validators (dkgRoundID m1))
           in (err, m3\<lparr>dealers := (dealers m3)(a := d)\<rparr>))
      | Some dealer \<Rightarrow> (None, m1))"

text \<open>
  \<open>CheckDKGTime\<close>. Its first statement, \<open>promoteNext\<close>, makes the staged verifier the
  current one at the change height. The remainder by a zero \<open>dkgNumBlocks\<close> is a run-time
  panic in Go; it is evaluated only when \<open>height > 1\<close>.
\<close>

definition promoteNext :: "int64 \<Rightarrow> 'd OffChainDKG \<Rightarrow> 'd OffChainDKG" where
  "promoteNext height m =
     (if changeHeight m = height
      then FireEvent (EventDKGKeyChange height)
             (m\<lparr>verifier := nextVerifier m, nextVerifier := None, changeHeight := 0\<rparr>)
      else m)"

definition CheckDKGTime ::
  "'d Dealer \<Rightarrow> int64 \<Rightarrow> ValidatorSet \<Rightarrow> 'd OffChainDKG \<Rightarrow> unit result \<times> 'd OffChainDKG" where
  "CheckDKGTime D height validators m =
     (let m1 = promoteNext height m
      in if 1 <s height
         then (if dkgNumBlocks m1 = 0 then (Panics, m1)
               else if int64_rem height (dkgNumBlocks m1) = 0
               then (case startRound D validators m1 of
                       (Some err, m2) \<Rightarrow> (Panics, m2)
                     | (None, m2) \<Rightarrow> (Returns (), m2))
               else (Returns (), m1))
         else (Returns (), m1))"

section \<open>The on-chain coordinator\<close>

text \<open>
  Modelled from the spec: \<open>context.Context\<close> and \<open>authtxb.TxBuilder\<close> are declared in
  another module. Of the client only the sender address is used, of the builder only the
  sequence number: \<open>WithSequence\<close> returns a copy of the builder with a new one.
\<close>

record Context =
  FromAddress :: bytes

record TxBuilder =
  accountNumber :: uint64
  sequence :: uint64

definition GetFromAddress :: "Context \<Rightarrow> bytes" where
  "GetFromAddress c = FromAddress c"

definition Sequence :: "TxBuilder \<Rightarrow> uint64" where
  "Sequence b = sequence b"

definition WithSequence :: "TxBuilder \<Rightarrow> uint64 \<Rightarrow> TxBuilder" where
  "WithSequence b n = b\<lparr>sequence := n\<rparr>"

definition NewMsgSendDKGData :: "DKGData \<Rightarrow> bytes \<Rightarrow> MsgSendDKGData" where
  "NewMsgSendDKGData data owner = \<lparr>SendData = data, Owner = owner\<rparr>"

text \<open>
  What \<open>sendMsg\<close> reads and writes of the struct \<open>OnChainDKG\<close>: the client, the tx builder,
  and behind the client the node, whose state \<open>'n\<close> a broadcast may change.
\<close>

record 'n OnChainDKG =
  cli :: Context
  txBldr :: TxBuilder
  node :: 'n

text \<open>
  \<open>sendMsg\<close>, the sink of the on-chain dealer. \<open>ValidateBasic\<close> is the message's own check
  and \<open>GenerateOrBroadcastMsgs\<close> the helper that signs and broadcasts; it receives the
  builder by value and returns an error or \<open>nil\<close>.
\<close>

definition sendMsg ::
  "(MsgSendDKGData \<Rightarrow> error option)
    \<Rightarrow> (Context \<Rightarrow> TxBuilder \<Rightarrow> MsgSendDKGData list \<Rightarrow> bool \<Rightarrow> 'n \<Rightarrow> error option \<times> 'n)
    \<Rightarrow> DKGData \<Rightarrow> 'n OnChainDKG \<Rightarrow> error option \<times> 'n OnChainDKG" where
  "sendMsg ValidateBasic GenerateOrBroadcastMsgs data m =
     (let msg = NewMsgSendDKGData data (GetFromAddress (cli m)) in
      case ValidateBasic msg of
        Some err \<Rightarrow> (Some (Errorf ''failed to validate basic'' err), m)
      | None \<Rightarrow>
          (let (err, n) = GenerateOrBroadcastMsgs (cli m) (txBldr m) [msg] False (node m);
               tempTxBldr = WithSequence (txBldr m) (Sequence (txBldr m) + 1);
               m1 = m\<lparr>node := n, txBldr := tempTxBldr\<rparr>
           in case err of
                Some e \<Rightarrow> (Some (Errorf ''failed to broadcast msg'' e), m1)
              | None \<Rightarrow> (None, m1)))"

text \<open>
  \<open>ProcessBlock\<close> calls the node through the client and the dealer \<open>m.dealer\<close>, whose
  handlers may in turn call the sink. Its model is therefore over a state \<open>'s\<close> that
  stands for everything these calls can reach (the dealer, the tx builder, the node); the
  dealer's methods and the query act on it. The round is taken to be started, so that
  \<open>m.dealer\<close> is set.
\<close>

record 's Rpc =
  QueryWithData :: "string \<Rightarrow> 's \<Rightarrow> (bytes \<times> error option) \<times> 's"
  gobDecode :: "bytes \<Rightarrow> MsgSendDKGData list \<times> error option"

fun ordinal :: "DKGDataType \<Rightarrow> string" where
  "ordinal DKGPubKey = ''0''"
| "ordinal DKGDeal = ''1''"
| "ordinal DKGResponse = ''2''"
| "ordinal DKGJustification = ''3''"
| "ordinal DKGCommits = ''4''"
| "ordinal DKGComplaint = ''5''"
| "ordinal DKGReconstructCommit = ''6''"

definition dkgDataPath :: "DKGDataType \<Rightarrow> string" where
  "dkgDataPath dataType = ''custom/randapp/dkgData/'' @ ordinal dataType"

definition getDKGMessages ::
  "'s Rpc \<Rightarrow> DKGDataType \<Rightarrow> 's \<Rightarrow> (MsgSendDKGData list \<times> error option) \<times> 's" where
  "getDKGMessages Q dataType m =
     (case QueryWithData Q (dkgDataPath dataType) m of
        ((res, Some err), m1) \<Rightarrow> (([], Some (Errorf ''failed to query for DKG data'' err)), m1)
      | ((res, None), m1) \<Rightarrow>
          (case gobDecode Q res of
             (dat, Some err) \<Rightarrow> (([], Some (Errorf ''failed to decode DKG data'' err)), m1)
           | (dat, None) \<Rightarrow> ((dat, None), m1)))"

text \<open>The inner loop of \<open>ProcessBlock\<close>: the messages of one bucket go to its handler.\<close>

fun handleMessages ::
  "(DKGData \<Rightarrow> 's \<Rightarrow> error option \<times> 's) \<Rightarrow> MsgSendDKGData list \<Rightarrow> 's \<Rightarrow> error option \<times> 's" where
  "handleMessages handler [] m = (None, m)"
| "handleMessages handler (msg # messages) m =
     (case handler (SendData msg) m of
        (Some err, m1) \<Rightarrow> (Some (Errorf ''failed to handle message'' err), m1)
      | (None, m1) \<Rightarrow> handleMessages handler messages m1)"

text \<open>The outer loop, over the data types that are still to be visited.\<close>

fun processBuckets :: "'s Dealer \<Rightarrow> 's Rpc \<Rightarrow> DKGDataType list \<Rightarrow> 's \<Rightarrow> error option \<times> 's" where
  "processBuckets D Q [] m = (None, m)"
| "processBuckets D Q (dataType # rest) m =
     (case getDKGMessages Q dataType m of
        ((messages, Some err), m1) \<Rightarrow> (Some (Errorf ''failed to getDKGMessages'' err), m1)
      | ((messages, None), m1) \<Rightarrow>
          (case handleMessages (handlerFor D dataType) messages m1 of
             (Some err, m2) \<Rightarrow> (Some err, m2)
           | (None, m2) \<Rightarrow> processBuckets D Q rest m2))"

definition ProcessBlock :: "'s Dealer \<Rightarrow> 's Rpc \<Rightarrow> 's \<Rightarrow> (error option \<times> bool) \<times> 's" where
  "ProcessBlock D Q m =
     (case processBuckets D Q
             [DKGPubKey, DKGDeal, DKGResponse, DKGJustification, DKGCommits, DKGComplaint,
              DKGReconstructCommit] m of
        (Some err, m1) \<Rightarrow> ((Some err, False), m1)
      | (None, m1) \<Rightarrow>
          (case GetVerifier D m1 of
             ((v, Some err), m2) \<Rightarrow>
               if err = ErrDKGVerifierNotReady then ((None, False), m2)
               else ((Some (Errorf ''DKG round failed'' err), False), m2)
           | ((v, None), m2) \<Rightarrow> ((None, True), m2)))"

section \<open>The calls a run makes\<close>

text \<open>
  To speak about which calls \<open>ProcessBlock\<close> makes, and in which order, the dealer and the
  client are wrapped: a wrapped method behaves as the method itself and appends the call
  and what it returned to a log that is carried beside the state.
\<close>

datatype call =
    Queried string "bytes \<times> error option"
  | Handled DKGDataType DKGData "error option"
  | GotVerifier "Verifier option \<times> error option"
  | Started "error option"
  | Verified DKGDataMessage "error option"
  | GotLosers "Validator list"

definition logged :: "('x \<Rightarrow> call) \<Rightarrow> ('s \<Rightarrow> 'x \<times> 's) \<Rightarrow> 's \<times> call list \<Rightarrow> 'x \<times> 's \<times> call list" where
  "logged c f = (\<lambda>(m, log). case f m of (x, m1) \<Rightarrow> (x, m1, log @ [c x]))"

definition recordingDealer :: "'s Dealer \<Rightarrow> ('s \<times> call list) Dealer" where
  "recordingDealer D =
     \<lparr>Start = logged Started (Start D),
      VerifyMessage = (\<lambda>msg. logged (Verified msg) (VerifyMessage D msg)),
      HandleDKGPubKey = (\<lambda>data. logged (Handled DKGPubKey data) (HandleDKGPubKey D data)),
      HandleDKGDeal = (\<lambda>data. logged (Handled DKGDeal data) (HandleDKGDeal D data)),
      HandleDKGResponse = (\<lambda>data. logged (Handled DKGResponse data) (HandleDKGResponse D data)),
      HandleDKGJustification =
        (\<lambda>data. logged (Handled DKGJustification data) (HandleDKGJustification D data)),
      HandleDKGCommit = (\<lambda>data. logged (Handled DKGCommits data) (HandleDKGCommit D data)),
      HandleDKGComplaint = (\<lambda>data. logged (Handled DKGComplaint data) (HandleDKGComplaint D data)),
      HandleDKGReconstructCommit =
        (\<lambda>data. logged (Handled DKGReconstructCommit data) (HandleDKGReconstructCommit D data)),
      GetVerifier = logged GotVerifier (GetVerifier D),
      GetLosers = logged GotLosers (GetLosers D)\<rparr>"

definition recordingRpc :: "'s Rpc \<Rightarrow> ('s \<times> call list) Rpc" where
  "recordingRpc Q =
     \<lparr>QueryWithData = (\<lambda>path. logged (Queried path) (QueryWithData Q path)),
      gobDecode = gobDecode Q\<rparr>"

text \<open>
  The spec's account of the buckets, as a set of call logs: \<open>visits decode ts log r\<close> says
  that \<open>log\<close> is what visiting the data types \<open>ts\<close> in this order looks like when it ends
  with the result \<open>r\<close>. Each type is queried under its own path; when the query and the
  decoding succeed, every decoded message goes, in order, to the handler of that type, and
  the next type follows; the first query, decoding or handler error is the last call of
  the log and is the result.
\<close>

inductive visits ::
  "(bytes \<Rightarrow> MsgSendDKGData list \<times> error option) \<Rightarrow> DKGDataType list \<Rightarrow> call list
    \<Rightarrow> error option \<Rightarrow> bool"
  for decode :: "bytes \<Rightarrow> MsgSendDKGData list \<times> error option" where
  visits_end: "visits decode [] [] None"
| visits_query_error:
    "visits decode (t # ts) [Queried (dkgDataPath t) (res, Some e)]
       (Some (Errorf ''failed to getDKGMessages'' (Errorf ''failed to query for DKG data'' e)))"
| visits_decode_error:
    "decode res = (dat, Some e) \<Longrightarrow>
     visits decode (t # ts) [Queried (dkgDataPath t) (res, None)]
       (Some (Errorf ''failed to getDKGMessages'' (Errorf ''failed to decode DKG data'' e)))"
| visits_handler_error:
    "decode res = (messages @ msg # later, None) \<Longrightarrow>
     visits decode (t # ts)
       (Queried (dkgDataPath t) (res, None)
          # map (\<lambda>x. Handled t (SendData x) None) messages
          @ [Handled t (SendData msg) (Some e)])
       (Some (Errorf ''failed to handle message'' e))"
| visits_bucket:
    "decode res = (messages, None) \<Longrightarrow> visits decode ts log r \<Longrightarrow>
     visits decode (t # ts)
       (Queried (dkgDataPath t) (res, None)
          # map (\<lambda>x. Handled t (SendData x) None) messages @ log)
       r"

section \<open>A small dealer and a small node, for concrete runs\<close>

text \<open>
  A dealer whose state counts the messages it has accepted. It rejects a message without
  a signature, fails on an empty payload, reports \<open>notReady\<close> below two accepted
  messages, has a verifier at two, and has failed beyond.
\<close>

definition countingHandler :: "DKGData \<Rightarrow> nat \<Rightarrow> error option \<times> nat" where
  "countingHandler data d =
     (if Payload data = [] then (Some (Err ''empty payload''), d) else (None, Suc d))"

definition countingDealer :: "error \<Rightarrow> nat Dealer" where
  "countingDealer notReady =
     \<lparr>Start = (\<lambda>d. (None, d)),
      VerifyMessage =
        (\<lambda>msg d. (if Signature (Data msg) = [] then Some (Err ''no signature'') else None, d)),
      HandleDKGPubKey = countingHandler,
      HandleDKGDeal = countingHandler,
      HandleDKGResponse = countingHandler,
      HandleDKGJustification = countingHandler,
      HandleDKGCommit = countingHandler,
      HandleDKGComplaint = countingHandler,
      HandleDKGReconstructCommit = countingHandler,
      GetVerifier =
        (\<lambda>d. (if d < 2 then (None, Some notReady)
              else if d = 2 then (Some (Verifier 7), None)
              else (None, Some (Err ''round failed'')), d)),
      GetLosers = (\<lambda>d. ([Validator d], d))\<rparr>"

definition share :: "DKGDataType \<Rightarrow> int \<Rightarrow> bytes \<Rightarrow> bytes \<Rightarrow> DKGDataMessage" where
  "share t r payload sig =
     \<lparr>Data = \<lparr>Type = t, RoundID = r, Addr = [1], Payload = payload, Signature = sig\<rparr>\<rparr>"

text \<open>
  A coordinator with two rounds under way: round 1 with the dealer at address 0, round
  2 with the dealer at address 1; \<open>accepted\<close> is the count every dealer starts from.
\<close>

definition twoRounds :: "nat \<Rightarrow> nat OffChainDKG" where
  "twoRounds accepted =
     \<lparr>verifier = Some (Verifier 0), nextVerifier = None, changeHeight = 0,
      dkgRoundToDealer = [(1, Some 0), (2, Some 1)], dkgRoundID = 2,
      dkgNumBlocks = 100, newDKGDealer = (\<lambda>validators roundID. accepted),
      privValidator = Some (PrivValidator 0), logger = Some (Logger 0),
      evsw = EventSwitch 0, chainID = ''rchain'',
      dealers = (\<lambda>a. accepted), allocated = 2, fired = [], slashLog = []\<rparr>"

text \<open>
  For \<open>sendMsg\<close>: a basic validation that rejects a message without a sender (the spec
  names an empty sender as a reason), a node whose state counts the broadcasts that were
  attempted and on which a broadcast succeeds or fails as \<open>ok\<close> says, and a coordinator
  whose builder stands at sequence number 5.
\<close>

definition rejectEmptyOwner :: "MsgSendDKGData \<Rightarrow> error option" where
  "rejectEmptyOwner msg = (if Owner msg = [] then Some (Err ''empty owner'') else None)"

definition countingBroadcast ::
  "bool \<Rightarrow> Context \<Rightarrow> TxBuilder \<Rightarrow> MsgSendDKGData list \<Rightarrow> bool \<Rightarrow> nat \<Rightarrow> error option \<times> nat" where
  "countingBroadcast ok c b msgs offline n =
     (if ok then None else Some (Err ''broadcast failed''), Suc n)"

definition onChain :: "bytes \<Rightarrow> nat OnChainDKG" where
  "onChain sender =
     \<lparr>cli = \<lparr>FromAddress = sender\<rparr>, txBldr = \<lparr>accountNumber = 1, sequence = 5\<rparr>, node = 0\<rparr>"

text \<open>
  For \<open>ProcessBlock\<close>: a node that answers the query for the first bucket with one byte,
  the query for the second bucket with the bytes \<open>deals\<close> and every other query with
  none; a byte decodes to one message, the byte 0 to a message with an empty payload.
\<close>

definition decodeBytes :: "bytes \<Rightarrow> MsgSendDKGData list \<times> error option" where
  "decodeBytes res =
     (map (\<lambda>b. \<lparr>SendData = Data (share DKGPubKey 0 (if b = 0 then [] else [b]) [1]),
                 Owner = [1]\<rparr>) res, None)"

definition smallNode :: "bytes \<Rightarrow> nat Rpc" where
  "smallNode deals =
     \<lparr>QueryWithData =
        (\<lambda>path m. ((if path = dkgDataPath DKGPubKey then [1]
                      else if path = dkgDataPath DKGDeal then deals else [], None), m)),
      gobDecode = decodeBytes\<rparr>"

definition sevenTypes :: "DKGDataType list" where
  "sevenTypes = [DKGPubKey, DKGDeal, DKGResponse, DKGJustification, DKGCommits, DKGComplaint,
                 DKGReconstructCommit]"

section \<open>Construction: the round cadence\<close>

lemma fold_keeps_dkgNumBlocks:
  "\<forall>opt \<in> set later. \<forall>d. dkgNumBlocks (opt d) = dkgNumBlocks d
    \<Longrightarrow> dkgNumBlocks (fold (\<lambda>option d. option d) later d) = dkgNumBlocks d"
  by (induction later arbitrary: d) simp_all

text \<open>
  C8. The options are applied in order, so the value configured for \<open>dkgNumBlocks\<close> is that
  of the last \<open>WithDKGNumBlocks\<close>: the options after it leave the field alone. The
  coordinator that \<open>NewOffChainDKG\<close> returns has 100 blocks when that value is zero, and the
  configured value otherwise.
\<close>

theorem C8_dkgNumBlocks_default:
  assumes "\<forall>opt \<in> set later. \<forall>d. dkgNumBlocks (opt d) = dkgNumBlocks d"
  shows "dkgNumBlocks (NewOffChainDKG NewDKGDealer heap ev chain
            (earlier @ WithDKGNumBlocks n # later)) = (if n = 0 then 100 else n)"
proof -
  have "dkgNumBlocks (fold (\<lambda>option d. option d) (earlier @ WithDKGNumBlocks n # later) d) = n"
    for d :: "'a OffChainDKG"
    using fold_keeps_dkgNumBlocks [OF assms] by (simp add: WithDKGNumBlocks_def)
  then show ?thesis
    by (simp add: NewOffChainDKG_def Let_def DefaultDKGNumBlocks_def)
qed

theorem C8_dkgNumBlocks_default_witness:
  "dkgNumBlocks (NewOffChainDKG (\<lambda>validators roundID. 0 :: nat) (\<lambda>a. 0) (EventSwitch 0) ''rchain''
      ([WithVerifier (Some (Verifier 1)), WithDKGNumBlocks 7] @ WithDKGNumBlocks 0
         # [WithLogger (Some (Logger 0)), WithPVKey (Some (PrivValidator 0))])) = 100
   \<and> dkgNumBlocks (NewOffChainDKG (\<lambda>validators roundID. 0 :: nat) (\<lambda>a. 0) (EventSwitch 0) ''rchain''
      ([] @ WithDKGNumBlocks 30 # [WithDKGDealerConstructor None])) = 30"
proof -
  have a: "\<forall>opt \<in> set [WithLogger (Some (Logger 0)), WithPVKey (Some (PrivValidator 0))].
             \<forall>d :: nat OffChainDKG. dkgNumBlocks (opt d) = dkgNumBlocks d"
    by (simp add: WithLogger_def WithPVKey_def)
  have b: "\<forall>opt \<in> set [WithDKGDealerConstructor None].
             \<forall>d :: nat OffChainDKG. dkgNumBlocks (opt d) = dkgNumBlocks d"
    by (simp add: WithDKGDealerConstructor_def)
  show ?thesis
    using C8_dkgNumBlocks_default [OF a, of "\<lambda>validators roundID. 0" "\<lambda>a. 0" "EventSwitch 0"
        "''rchain''" "[WithVerifier (Some (Verifier 1)), WithDKGNumBlocks 7]" 0]
      C8_dkgNumBlocks_default [OF b, of "\<lambda>validators roundID. 0" "\<lambda>a. 0" "EventSwitch 0"
        "''rchain''" "[]" 30]
    by simp
qed

section \<open>Arithmetic on heights\<close>

lemma sint_in_range: "- 9223372036854775808 \<le> sint (w :: int64) \<and> sint w < 9223372036854775808"
  using sint_ge [of w] sint_lt [of w] by simp

lemma sint_of_small:
  "- 9223372036854775808 \<le> k \<Longrightarrow> k < 9223372036854775808 \<Longrightarrow> sint (word_of_int k :: int64) = k"
  by (simp add: sint_sbintrunc' signed_take_bit_int_eq_self)

lemma sint_add_no_overflow:
  "- 9223372036854775808 \<le> sint (a :: int64) + sint b \<Longrightarrow> sint a + sint b < 9223372036854775808
    \<Longrightarrow> sint (a + b) = sint a + sint b"
  by (simp add: sint_word_ariths signed_take_bit_int_eq_self)

lemma sint_sub_no_overflow:
  "- 9223372036854775808 \<le> sint (a :: int64) - sint b \<Longrightarrow> sint a - sint b < 9223372036854775808
    \<Longrightarrow> sint (a - b) = sint a - sint b"
  by (simp add: sint_word_ariths signed_take_bit_int_eq_self)

lemma smod_nonneg: "0 \<le> (k::int) \<Longrightarrow> 0 < l \<Longrightarrow> k smod l = k mod l"
  by (cases "k = 0") (simp_all add: signed_modulo_int_def)

lemma smod_neg: "(k::int) < 0 \<Longrightarrow> 0 < l \<Longrightarrow> k smod l = - ((- k) mod l)"
  by (simp add: signed_modulo_int_def)

lemma smod_5_bounds:
  "(0 \<le> (k::int) \<longrightarrow> 0 \<le> k smod 5 \<and> k smod 5 \<le> 4 \<and> k smod 5 \<le> k)
   \<and> (k < 0 \<longrightarrow> - 4 \<le> k smod 5 \<and> k smod 5 \<le> 0 \<and> k \<le> k smod 5)"
proof (cases "0 \<le> k")
  case True
  then have "k smod 5 = k mod 5" by (simp add: smod_nonneg)
  moreover have "0 \<le> k mod 5" "k mod 5 < 5" by simp_all
  moreover have "k mod 5 \<le> k" using True by (simp add: zmod_le_nonneg_dividend)
  ultimately show ?thesis using True by simp
next
  case False
  then have "k smod 5 = - ((- k) mod 5)" by (simp add: smod_neg)
  moreover have "0 \<le> (- k) mod 5" "(- k) mod 5 < 5" by simp_all
  moreover have "(- k) mod 5 \<le> - k" using False by (simp add: zmod_le_nonneg_dividend)
  ultimately show ?thesis using False by simp
qed

lemma smod_dvd_diff: "(l::int) dvd k - k smod l"
  by (metis dvd_triv_right minus_smod_eq_sdiv_mult)

lemma smod_eq_0_iff: "(k::int) smod l = 0 \<longleftrightarrow> k mod l = 0"
  by (auto simp: signed_modulo_int_def sgn_if abs_if dvd_eq_mod_eq_0 [symmetric] zmod_zminus1_eq_if zmod_zminus2_eq_if split: if_splits)

lemma smod_between:
  "(0 \<le> (k::int) \<longrightarrow> 0 \<le> k smod l \<and> k smod l \<le> k) \<and> (k \<le> 0 \<longrightarrow> k \<le> k smod l \<and> k smod l \<le> 0)"
proof -
  have "\<bar>k\<bar> mod \<bar>l\<bar> \<le> \<bar>k\<bar>" by (simp add: zmod_le_nonneg_dividend)
  moreover have "0 \<le> \<bar>k\<bar> mod \<bar>l\<bar>"
    by (cases "l = 0") simp_all
  ultimately show ?thesis
    by (cases "k = 0"; cases "0 < k") (simp_all add: signed_modulo_int_def)
qed

lemma sint_int64_rem: "sint (int64_rem a b) = sint a smod sint b"
proof -
  have "- 9223372036854775808 \<le> sint a smod sint b" "sint a smod sint b < 9223372036854775808"
    using sint_in_range [of a] smod_between [of "sint a" "sint b"]
    by (cases "0 \<le> sint a"; simp)+
  then show ?thesis
    unfolding int64_rem_def by (rule sint_of_small)
qed

lemma int64_rem_eq_0_iff: "int64_rem a b = 0 \<longleftrightarrow> sint a mod sint b = 0"
proof -
  have "int64_rem a b = 0 \<longleftrightarrow> sint (int64_rem a b) = 0"
    by (simp add: signed_eq_0_iff)
  then show ?thesis by (simp add: sint_int64_rem smod_eq_0_iff)
qed

lemma sless_1_iff: "1 <s (h :: int64) \<longleftrightarrow> 1 < sint h"
  by (simp add: word_sless_alt)

lemma sint_stagedChangeHeight:
  assumes "sint h \<le> 9223372036854775787"
  shows "sint (stagedChangeHeight h) = (sint h + 20) - ((sint h + 20) smod 5)"
proof -
  define x where "x = sint h + 20"
  have r: "- 9223372036854775808 \<le> sint h" "sint h < 9223372036854775808"
    using sint_in_range [of h] by simp_all
  have xr: "- 9223372036854775788 \<le> x" "x \<le> 9223372036854775807"
    using assms r by (simp_all add: x_def)
  have x: "sint (h + 20) = x"
    using assms r sint_add_no_overflow [of h 20] by (simp add: x_def)
  have b: "- 4 \<le> x smod 5" "x smod 5 \<le> 4"
    using smod_5_bounds [of x] by (cases "0 \<le> x"; simp)+
  have s: "sint (word_of_int (x smod 5) :: int64) = x smod 5"
    using b by (intro sint_of_small) simp_all
  have d: "- 9223372036854775808 \<le> x - x smod 5" "x - x smod 5 < 9223372036854775808"
    using xr smod_5_bounds [of x] by (cases "0 \<le> x"; simp)+
  have "sint ((h + 20) - word_of_int (x smod 5) :: int64) = x - x smod 5"
    using d sint_sub_no_overflow [of "h + 20" "word_of_int (x smod 5)"] by (simp add: x s)
  then show ?thesis
    by (simp add: stagedChangeHeight_def BlocksAhead_def int64_rem_def x x_def [symmetric])
qed

lemma stagedChangeHeight_facts:
  assumes "sint h \<le> 9223372036854775787"
  shows "5 dvd sint (stagedChangeHeight h)"
    and "sint h + 16 \<le> sint (stagedChangeHeight h)"
    and "- 20 \<le> sint h \<Longrightarrow> sint (stagedChangeHeight h) = (sint h + 20) - ((sint h + 20) mod 5)"
proof -
  note e = sint_stagedChangeHeight [OF assms]
  show "5 dvd sint (stagedChangeHeight h)"
    unfolding e by (rule smod_dvd_diff)
  show "sint h + 16 \<le> sint (stagedChangeHeight h)"
    unfolding e using smod_5_bounds [of "sint h + 20"] by (cases "0 \<le> sint h + 20"; simp)
  show "sint (stagedChangeHeight h) = (sint h + 20) - ((sint h + 20) mod 5)" if "- 20 \<le> sint h"
    unfolding e using that by (simp add: smod_nonneg)
qed

section \<open>Handling an off-chain share\<close>

text \<open>
  What \<open>HandleOffChainShare\<close> does when the call reaches \<open>dealer.GetVerifier\<close> and a
  verifier comes back: \<open>m1\<close> is the coordinator once the dealer of the round is at hand.
\<close>

lemma obtains_verifier:
  assumes "dealerOfRound D (Data dkgMsg) validators m = (Returns (Some a), m1)"
    and "VerifyMessage D dkgMsg (dealers m1 a) = (None, d1)"
    and "handlerFor D (Type (Data dkgMsg)) (Data dkgMsg) d1 = (None, d2)"
    and "GetVerifier D d2 = ((v, None), d3)"
  shows "HandleOffChainShare D dkgMsg height validators pubKey m =
           (Returns False,
            m1\<lparr>dealers := (dealers m1)(a := d3),
               dkgRoundToDealer := killOlderRounds (RoundID (Data dkgMsg)) (dkgRoundToDealer m1),
               nextVerifier := v,
               changeHeight := stagedChangeHeight height,
               fired := fired m1 @ [EventDKGSuccessful (stagedChangeHeight height)]\<rparr>)"
  using assms by (simp add: HandleOffChainShare_def Let_def FireEvent_def)

lemma dealerOfRound_found:
  "map_of (dkgRoundToDealer m) (RoundID msg) = Some dealer
    \<Longrightarrow> dealerOfRound D msg validators m = (Returns dealer, m)"
  by (simp add: dealerOfRound_def)

lemmas run_defs = HandleOffChainShare_def dealerOfRound_def share_def twoRounds_def
  countingDealer_def countingHandler_def killOlderRounds_def FireEvent_def slashLosers_def

lemma killOlderRounds_fold:
  "fold (\<lambda>roundID r. if roundID < R then AList.update R None r else r) ks reg
     = (if \<exists>k \<in> set ks. k < R then AList.update R None reg else reg)"
  by (induction ks arbitrary: reg) (auto simp: update_triv)

lemma killOlderRounds_eq:
  "killOlderRounds R reg = (if \<exists>k \<in> fst ` set reg. k < R then AList.update R None reg else reg)"
  by (simp add: killOlderRounds_def killOlderRounds_fold)

lemma killOlderRounds_other: "k \<noteq> R \<Longrightarrow> map_of (killOlderRounds R reg) k = map_of reg k"
  by (simp add: killOlderRounds_eq update_conv')

text \<open>
  C1. The claim: when a round \<open>R\<close> yields its verifier, every entry of the map with a key
  below \<open>R\<close> is set to \<open>nil\<close>, so that a late message of such a round is dropped. The loop
  in the source assigns to the entry of \<open>R\<close> itself (see \<open>killOlderRounds_eq\<close>,
  \<open>killOlderRounds_other\<close>). Here rounds 1 and 2 are under way and a message of round 2
  completes it at height 77: afterwards round 1 still has its dealer at address 0 and
  round 2, the winner, is \<open>nil\<close>; a later message of round 1 is not dropped but handled
  by that dealer, whose count of accepted messages goes from 1 to 2.
\<close>

theorem C1_older_round_survives:
  "dkgRoundToDealer (snd (HandleOffChainShare (countingDealer ErrVerifierNotReady)
      (share DKGPubKey 2 [1] [1]) 77 [] (PubKey 0) (twoRounds 1)))
     = [(1, Some 0), (2, None)]
   \<and> nextVerifier (snd (HandleOffChainShare (countingDealer ErrVerifierNotReady)
      (share DKGPubKey 2 [1] [1]) 77 [] (PubKey 0) (twoRounds 1))) = Some (Verifier 7)
   \<and> dealers (snd (HandleOffChainShare (countingDealer ErrVerifierNotReady)
        (share DKGDeal 1 [1] [1]) 78 [] (PubKey 0)
        (snd (HandleOffChainShare (countingDealer ErrVerifierNotReady)
           (share DKGPubKey 2 [1] [1]) 77 [] (PubKey 0) (twoRounds 1))))) 0 = 2"
  by (simp add: run_defs stagedChangeHeight_def BlocksAhead_def int64_rem_def signed_modulo_int_def)

text \<open>
  C2. When \<open>HandleOffChainShare\<close> obtains a verifier at a height \<open>h\<close> with
  \<open>h + 20 \<le> 2^63 - 1\<close>, so that the \<open>int64\<close> addition does not wrap around, the change
  height it stages is \<open>(h + 20) - ((h + 20) rem 5)\<close>, \<open>rem\<close> being Go's remainder, which is
  \<open>mod\<close> when \<open>h \<ge> -20\<close>; it is divisible by 5 and at least \<open>h + 16\<close>.
\<close>

theorem C2_staged_change_height:
  assumes "dealerOfRound D (Data dkgMsg) validators m = (Returns (Some a), m1)"
    and "VerifyMessage D dkgMsg (dealers m1 a) = (None, d1)"
    and "handlerFor D (Type (Data dkgMsg)) (Data dkgMsg) d1 = (None, d2)"
    and "GetVerifier D d2 = ((v, None), d3)"
    and "sint height \<le> 9223372036854775787"
  shows "sint (changeHeight (snd (HandleOffChainShare D dkgMsg height validators pubKey m)))
           = (sint height + 20) - ((sint height + 20) smod 5)
         \<and> (if - 20 \<le> sint height
            then (sint height + 20) smod 5 = (sint height + 20) mod 5
            else (sint height + 20) smod 5 = - ((- (sint height + 20)) mod 5))
         \<and> 5 dvd sint (changeHeight (snd (HandleOffChainShare D dkgMsg height validators pubKey m)))
         \<and> sint height + 16
             \<le> sint (changeHeight (snd (HandleOffChainShare D dkgMsg height validators pubKey m)))"
proof -
  have c: "changeHeight (snd (HandleOffChainShare D dkgMsg height validators pubKey m))
             = stagedChangeHeight height"
    by (simp add: obtains_verifier [OF assms(1-4)])
  show ?thesis
    unfolding c
    using sint_stagedChangeHeight [OF assms(5)] stagedChangeHeight_facts(1,2) [OF assms(5)]
    by (simp add: smod_nonneg smod_neg)
qed

text \<open>At height 77 the staged change height is 95.\<close>

theorem C2_staged_change_height_witness:
  "sint (changeHeight (snd (HandleOffChainShare (countingDealer ErrVerifierNotReady)
      (share DKGPubKey 2 [1] [1]) 77 [] (PubKey 0) (twoRounds 1)))) = 95"
proof -
  have h1: "dealerOfRound (countingDealer ErrVerifierNotReady) (Data (share DKGPubKey 2 [1] [1])) []
              (twoRounds 1) = (Returns (Some 1), twoRounds 1)"
    by (simp add: dealerOfRound_def share_def twoRounds_def)
  have h2: "VerifyMessage (countingDealer ErrVerifierNotReady) (share DKGPubKey 2 [1] [1])
              (dealers (twoRounds 1) 1) = (None, 1)"
    by (simp add: countingDealer_def share_def twoRounds_def)
  have h3: "handlerFor (countingDealer ErrVerifierNotReady) (Type (Data (share DKGPubKey 2 [1] [1])))
              (Data (share DKGPubKey 2 [1] [1])) 1 = (None, 2)"
    by (simp add: countingDealer_def countingHandler_def share_def)
  have h4: "GetVerifier (countingDealer ErrVerifierNotReady) 2 = ((Some (Verifier 7), None), 2)"
    by (simp add: countingDealer_def)
  have h5: "sint (77 :: int64) \<le> 9223372036854775787"
    by simp
  show ?thesis
    using C2_staged_change_height [OF h1 h2 h3 h4 h5, of "PubKey 0"]
    by (simp add: signed_modulo_int_def)
qed

text \<open>
  At the height \<open>2^63 - 1\<close> the sum \<open>h + 20\<close> wraps around: a verifier is obtained and the
  staged change height is negative, below \<open>h + 16\<close>.
\<close>

theorem C2_overflow_counterexample:
  "nextVerifier (snd (HandleOffChainShare (countingDealer ErrVerifierNotReady)
      (share DKGPubKey 2 [1] [1]) 9223372036854775807 [] (PubKey 0) (twoRounds 1)))
     = Some (Verifier 7)
   \<and> sint (changeHeight (snd (HandleOffChainShare (countingDealer ErrVerifierNotReady)
      (share DKGPubKey 2 [1] [1]) 9223372036854775807 [] (PubKey 0) (twoRounds 1))))
     = - 9223372036854775785
   \<and> \<not> sint (9223372036854775807 :: int64) + 16
        \<le> sint (changeHeight (snd (HandleOffChainShare (countingDealer ErrVerifierNotReady)
             (share DKGPubKey 2 [1] [1]) 9223372036854775807 [] (PubKey 0) (twoRounds 1))))"
  by (simp add: run_defs stagedChangeHeight_def BlocksAhead_def int64_rem_def signed_modulo_int_def)

text \<open>
  C9. A message whose round has a dealer and which that dealer does not verify: the call
  returns \<open>false\<close>, and the coordinator is as before but for what \<open>VerifyMessage\<close> did to
  the dealer's own state; the current and the next verifier, the change height, the map
  of rounds and the round id are unchanged.
\<close>

theorem C9_unverified_message_dropped:
  assumes "map_of (dkgRoundToDealer m) (RoundID (Data dkgMsg)) = Some (Some a)"
    and "VerifyMessage D dkgMsg (dealers m a) = (Some e, d1)"
  shows "HandleOffChainShare D dkgMsg height validators pubKey m
           = (Returns False, m\<lparr>dealers := (dealers m)(a := d1)\<rparr>)
         \<and> verifier (snd (HandleOffChainShare D dkgMsg height validators pubKey m)) = verifier m
         \<and> nextVerifier (snd (HandleOffChainShare D dkgMsg height validators pubKey m))
             = nextVerifier m
         \<and> changeHeight (snd (HandleOffChainShare D dkgMsg height validators pubKey m))
             = changeHeight m
         \<and> dkgRoundToDealer (snd (HandleOffChainShare D dkgMsg height validators pubKey m))
             = dkgRoundToDealer m
         \<and> dkgRoundID (snd (HandleOffChainShare D dkgMsg height validators pubKey m))
             = dkgRoundID m"
proof -
  have "HandleOffChainShare D dkgMsg height validators pubKey m
          = (Returns False, m\<lparr>dealers := (dealers m)(a := d1)\<rparr>)"
    using assms(2) by (simp add: HandleOffChainShare_def Let_def dealerOfRound_found [OF assms(1)])
  then show ?thesis by simp
qed

theorem C9_unverified_message_dropped_witness:
  "HandleOffChainShare (countingDealer ErrVerifierNotReady) (share DKGDeal 2 [1] []) 77 []
      (PubKey 0) (twoRounds 1) = (Returns False, twoRounds 1)"
proof -
  have h1: "map_of (dkgRoundToDealer (twoRounds 1)) (RoundID (Data (share DKGDeal 2 [1] [])))
              = Some (Some 1)"
    by (simp add: share_def twoRounds_def)
  have h2: "VerifyMessage (countingDealer ErrVerifierNotReady) (share DKGDeal 2 [1] [])
              (dealers (twoRounds 1) 1) = (Some (Err ''no signature''), 1)"
    by (simp add: countingDealer_def share_def twoRounds_def)
  have "(twoRounds 1)\<lparr>dealers := (dealers (twoRounds 1))(1 := 1)\<rparr> = twoRounds 1"
    by (simp add: twoRounds_def fun_eq_iff)
  then show ?thesis
    using C9_unverified_message_dropped [OF h1 h2, of 77 "[]" "PubKey 0"] by simp
qed

text \<open>
  C4. The message has been verified by the dealer at address \<open>a\<close> and is dispatched to
  its handler, which returns \<open>herr\<close>. If that is an error, the losers the dealer reports
  are slashed, the entry of the round is set to \<open>nil\<close> and the call returns \<open>false\<close>. If the
  handler succeeds and \<open>GetVerifier\<close> returns \<open>ErrVerifierNotReady\<close>, the call returns
  \<open>false\<close> and only the dealer's own state has changed. If \<open>GetVerifier\<close> returns another
  error, the losers are slashed, the entry is set to \<open>nil\<close> and the call returns \<open>true\<close>.
\<close>

theorem C4_round_failure_handling:
  assumes "dealerOfRound D (Data dkgMsg) validators m = (Returns (Some a), m1)"
    and "VerifyMessage D dkgMsg (dealers m1 a) = (None, d1)"
    and "handlerFor D (Type (Data dkgMsg)) (Data dkgMsg) d1 = (herr, d2)"
  shows "(\<forall>e losers d3. herr = Some e \<and> GetLosers D d2 = (losers, d3) \<longrightarrow>
            HandleOffChainShare D dkgMsg height validators pubKey m
              = (Returns False,
                 m1\<lparr>dealers := (dealers m1)(a := d3),
                    slashLog := slashLog m1 @ losers,
                    dkgRoundToDealer :=
                      AList.update (RoundID (Data dkgMsg)) None (dkgRoundToDealer m1)\<rparr>))
         \<and> (\<forall>v d3. herr = None \<and> GetVerifier D d2 = ((v, Some ErrVerifierNotReady), d3) \<longrightarrow>
            HandleOffChainShare D dkgMsg height validators pubKey m
              = (Returns False, m1\<lparr>dealers := (dealers m1)(a := d3)\<rparr>))
         \<and> (\<forall>v err d3 losers d4.
              herr = None \<and> GetVerifier D d2 = ((v, Some err), d3) \<and> err \<noteq> ErrVerifierNotReady
              \<and> GetLosers D d3 = (losers, d4) \<longrightarrow>
            HandleOffChainShare D dkgMsg height validators pubKey m
              = (Returns True,
                 m1\<lparr>dealers := (dealers m1)(a := d4),
                    slashLog := slashLog m1 @ losers,
                    dkgRoundToDealer :=
                      AList.update (RoundID (Data dkgMsg)) None (dkgRoundToDealer m1)\<rparr>))"
  using assms by (simp add: HandleOffChainShare_def Let_def slashLosers_def)

theorem C4_round_failure_handling_witness:
  "HandleOffChainShare (countingDealer ErrVerifierNotReady) (share DKGDeal 2 [] [1]) 77 []
      (PubKey 0) (twoRounds 1)
     = (Returns False,
        (twoRounds 1)\<lparr>slashLog := [Validator 1], dkgRoundToDealer := [(1, Some 0), (2, None)]\<rparr>)
   \<and> HandleOffChainShare (countingDealer ErrVerifierNotReady) (share DKGDeal 2 [1] [1]) 77 []
      (PubKey 0) (twoRounds 0)
     = (Returns False, (twoRounds 0)\<lparr>dealers := (dealers (twoRounds 0))(1 := 1)\<rparr>)
   \<and> HandleOffChainShare (countingDealer ErrVerifierNotReady) (share DKGDeal 2 [1] [1]) 77 []
      (PubKey 0) (twoRounds 2)
     = (Returns True,
        (twoRounds 2)\<lparr>dealers := (dealers (twoRounds 2))(1 := 3), slashLog := [Validator 3],
                       dkgRoundToDealer := [(1, Some 0), (2, None)]\<rparr>)"
proof -
  let ?D = "countingDealer ErrVerifierNotReady"
  have found: "dealerOfRound ?D (Data (share DKGDeal 2 p [1])) [] (twoRounds n)
                 = (Returns (Some 1), twoRounds n)" for p n
    by (simp add: dealerOfRound_def share_def twoRounds_def)
  have verified: "VerifyMessage ?D (share DKGDeal 2 p [1]) (dealers (twoRounds n) 1) = (None, n)"
    for p n
    by (simp add: countingDealer_def share_def twoRounds_def)
  have failing: "handlerFor ?D (Type (Data (share DKGDeal 2 [] [1]))) (Data (share DKGDeal 2 [] [1])) 1
                   = (Some (Err ''empty payload''), 1)"
    by (simp add: countingDealer_def countingHandler_def share_def)
  have handled: "handlerFor ?D (Type (Data (share DKGDeal 2 [1] [1])))
                   (Data (share DKGDeal 2 [1] [1])) n = (None, Suc n)" for n
    by (simp add: countingDealer_def countingHandler_def share_def)
  have losers: "GetLosers ?D n = ([Validator n], n)" for n
    by (simp add: countingDealer_def)
  have notReady: "GetVerifier ?D (Suc 0) = ((None, Some ErrVerifierNotReady), Suc 0)"
    by (simp add: countingDealer_def)
  have failed: "GetVerifier ?D (Suc 2) = ((None, Some (Err ''round failed'')), Suc 2)"
    by (simp add: countingDealer_def)
  have same: "(twoRounds 1)\<lparr>dealers := (dealers (twoRounds 1))(1 := 1)\<rparr> = twoRounds 1"
    by (simp add: twoRounds_def fun_eq_iff)
  have a: "HandleOffChainShare ?D (share DKGDeal 2 [] [1]) 77 [] (PubKey 0) (twoRounds 1)
             = (Returns False,
                (twoRounds 1)\<lparr>slashLog := [Validator 1],
                               dkgRoundToDealer := [(1, Some 0), (2, None)]\<rparr>)"
    using C4_round_failure_handling [OF found [of "[]" 1] verified [of "[]" 1] failing, where height = 77 and pubKey = "PubKey 0"] losers [of 1] same
    by (simp add: share_def twoRounds_def)
  have b: "HandleOffChainShare ?D (share DKGDeal 2 [1] [1]) 77 [] (PubKey 0) (twoRounds 0)
             = (Returns False, (twoRounds 0)\<lparr>dealers := (dealers (twoRounds 0))(1 := 1)\<rparr>)"
    using C4_round_failure_handling [OF found [of "[1]" 0] verified [of "[1]" 0] handled [of 0], where height = 77 and pubKey = "PubKey 0"] notReady
    by simp
  have c: "HandleOffChainShare ?D (share DKGDeal 2 [1] [1]) 77 [] (PubKey 0) (twoRounds 2)
             = (Returns True,
                (twoRounds 2)\<lparr>dealers := (dealers (twoRounds 2))(1 := 3), slashLog := [Validator 3],
                               dkgRoundToDealer := [(1, Some 0), (2, None)]\<rparr>)"
    using C4_round_failure_handling [OF found [of "[1]" 2] verified [of "[1]" 2] handled [of 2], where height = 77 and pubKey = "PubKey 0"] failed
      losers [of 3]
    by (simp add: share_def twoRounds_def)
  from a b c show ?thesis by simp
qed

section \<open>The height scheduler\<close>

lemma startRound_fields:
  "verifier (snd (startRound D validators m)) = verifier m"
  "nextVerifier (snd (startRound D validators m)) = nextVerifier m"
  "changeHeight (snd (startRound D validators m)) = changeHeight m"
  "dkgRoundID (snd (startRound D validators m)) = dkgRoundID m + 1"
  "take (length (fired m)) (fired (snd (startRound D validators m))) = fired m"
  by (simp_all add: startRound_def Let_def FireEvent_def split: option.splits prod.splits)

lemma promoteNext_fields:
  "dkgRoundID (promoteNext height m) = dkgRoundID m"
  "dkgNumBlocks (promoteNext height m) = dkgNumBlocks m"
  "changeHeight m = height \<Longrightarrow> verifier (promoteNext height m) = nextVerifier m"
  "changeHeight m = height \<Longrightarrow> nextVerifier (promoteNext height m) = None"
  "changeHeight m = height \<Longrightarrow> changeHeight (promoteNext height m) = 0"
  "changeHeight m = height \<Longrightarrow> fired (promoteNext height m) = fired m @ [EventDKGKeyChange height]"
  "changeHeight m \<noteq> height \<Longrightarrow> promoteNext height m = m"
  by (simp_all add: promoteNext_def FireEvent_def)

lemma CheckDKGTime_cases:
  "CheckDKGTime D height validators m =
     (if 1 < sint height \<and> sint height mod sint (dkgNumBlocks m) = 0
      then (case startRound D validators (promoteNext height m) of
              (Some err, m2) \<Rightarrow> (Panics, m2)
            | (None, m2) \<Rightarrow> (Returns (), m2))
      else (if 1 < sint height \<and> dkgNumBlocks m = 0 then Panics else Returns (),
            promoteNext height m))"
  by (auto simp: CheckDKGTime_def Let_def sless_1_iff int64_rem_eq_0_iff promoteNext_fields)

lemma snd_case_startRound:
  "snd (case startRound D validators m of (Some err, m2) \<Rightarrow> (Panics, m2)
        | (None, m2) \<Rightarrow> (Returns (), m2)) = snd (startRound D validators m)"
  by (simp split: prod.splits option.splits)

text \<open>
  C7. \<open>CheckDKGTime\<close> at height \<open>h\<close>. If \<open>h\<close> is the stored change height, the next verifier
  becomes the current one, the next one is \<open>nil\<close>, the change height is 0, and
  \<open>EventDKGKeyChange h\<close> is fired right after the events fired before. \<open>startRound\<close> is
  called, on the coordinator after that first step, exactly when \<open>h > 1\<close> and
  \<open>h mod dkgNumBlocks = 0\<close>; then the round id has gone up by one, and otherwise the
  coordinator is the one after the first step, with the round id it had. (With
  \<open>dkgNumBlocks = 0\<close> and \<open>h > 1\<close> the remainder panics and no round is started.)
\<close>

theorem C7_check_dkg_time:
  "(changeHeight m = height \<longrightarrow>
      verifier (snd (CheckDKGTime D height validators m)) = nextVerifier m
      \<and> nextVerifier (snd (CheckDKGTime D height validators m)) = None
      \<and> changeHeight (snd (CheckDKGTime D height validators m)) = 0
      \<and> take (Suc (length (fired m))) (fired (snd (CheckDKGTime D height validators m)))
          = fired m @ [EventDKGKeyChange height])
   \<and> (1 < sint height \<and> sint height mod sint (dkgNumBlocks m) = 0 \<longrightarrow>
        CheckDKGTime D height validators m
          = (case startRound D validators (promoteNext height m) of
               (Some err, m2) \<Rightarrow> (Panics, m2)
             | (None, m2) \<Rightarrow> (Returns (), m2))
        \<and> dkgRoundID (snd (CheckDKGTime D height validators m)) = dkgRoundID m + 1)
   \<and> (\<not> (1 < sint height \<and> sint height mod sint (dkgNumBlocks m) = 0) \<longrightarrow>
        snd (CheckDKGTime D height validators m) = promoteNext height m
        \<and> dkgRoundID (snd (CheckDKGTime D height validators m)) = dkgRoundID m)"
proof (cases "1 < sint height \<and> sint height mod sint (dkgNumBlocks m) = 0")
  case True
  have s: "snd (CheckDKGTime D height validators m)
             = snd (startRound D validators (promoteNext height m))"
    using True by (simp add: CheckDKGTime_cases snd_case_startRound)
  have f: "take (Suc (length (fired m))) (fired (snd (startRound D validators (promoteNext height m))))
             = fired m @ [EventDKGKeyChange height]" if "changeHeight m = height"
    using startRound_fields(5) [where D = D and validators = validators and m = "promoteNext height m"] that
    by (simp add: promoteNext_fields)
  show ?thesis
    using True f unfolding s
    by (simp add: startRound_fields promoteNext_fields CheckDKGTime_cases)
next
  case False
  have "CheckDKGTime D height validators m
          = (if False
             then (case startRound D validators (promoteNext height m) of
                     (Some err, m2) \<Rightarrow> (Panics, m2)
                   | (None, m2) \<Rightarrow> (Returns (), m2))
             else (if 1 < sint height \<and> dkgNumBlocks m = 0 then Panics else Returns (),
                   promoteNext height m))"
    using False by (subst CheckDKGTime_cases) (rule if_cong; simp)
  then have s: "CheckDKGTime D height validators m
             = (if 1 < sint height \<and> dkgNumBlocks m = 0 then Panics else Returns (),
                promoteNext height m)"
    by (simp only: if_False)
  show ?thesis
    using False unfolding s by (simp add: promoteNext_fields)
qed

text \<open>
  The swap at height 95; a round start at height 200 with 100 blocks per round; none at
  height 0, nor at height 1 with one block per round.
\<close>

theorem C7_check_dkg_time_witness:
  "verifier (snd (CheckDKGTime (countingDealer ErrVerifierNotReady) 95 []
      ((twoRounds 1)\<lparr>nextVerifier := Some (Verifier 7), changeHeight := 95\<rparr>)))
     = Some (Verifier 7)
   \<and> nextVerifier (snd (CheckDKGTime (countingDealer ErrVerifierNotReady) 95 []
      ((twoRounds 1)\<lparr>nextVerifier := Some (Verifier 7), changeHeight := 95\<rparr>))) = None
   \<and> changeHeight (snd (CheckDKGTime (countingDealer ErrVerifierNotReady) 95 []
      ((twoRounds 1)\<lparr>nextVerifier := Some (Verifier 7), changeHeight := 95\<rparr>))) = 0
   \<and> fired (snd (CheckDKGTime (countingDealer ErrVerifierNotReady) 95 []
      ((twoRounds 1)\<lparr>nextVerifier := Some (Verifier 7), changeHeight := 95\<rparr>)))
     = [EventDKGKeyChange 95]
   \<and> dkgRoundID (snd (CheckDKGTime (countingDealer ErrVerifierNotReady) 200 [] (twoRounds 1))) = 3
   \<and> dkgRoundID (snd (CheckDKGTime (countingDealer ErrVerifierNotReady) 0 [] (twoRounds 1))) = 2
   \<and> dkgRoundID (snd (CheckDKGTime (countingDealer ErrVerifierNotReady) 1 []
        ((twoRounds 1)\<lparr>dkgNumBlocks := 1\<rparr>))) = 2"
proof -
  let ?D = "countingDealer ErrVerifierNotReady"
  let ?m = "(twoRounds 1)\<lparr>nextVerifier := Some (Verifier 7), changeHeight := 95\<rparr>"
  have a: "changeHeight ?m = 95" "nextVerifier ?m = Some (Verifier 7)" "fired ?m = []"
    "\<not> (1 < sint (95 :: int64) \<and> sint (95 :: int64) mod sint (dkgNumBlocks ?m) = 0)"
    by (simp_all add: twoRounds_def)
  have b: "1 < sint (200 :: int64) \<and> sint (200 :: int64) mod sint (dkgNumBlocks (twoRounds 1)) = 0"
    "dkgRoundID (twoRounds 1) = 2"
    by (simp_all add: twoRounds_def)
  have c: "\<not> (1 < sint (0 :: int64) \<and> sint (0 :: int64) mod sint (dkgNumBlocks (twoRounds 1)) = 0)"
    "sint (0 :: int64) mod sint (dkgNumBlocks (twoRounds 1)) = 0"
    by (simp_all add: twoRounds_def)
  have d: "\<not> (1 < sint (1 :: int64)
               \<and> sint (1 :: int64) mod sint (dkgNumBlocks ((twoRounds 1)\<lparr>dkgNumBlocks := 1\<rparr>)) = 0)"
    "sint (1 :: int64) mod sint (dkgNumBlocks ((twoRounds 1)\<lparr>dkgNumBlocks := 1\<rparr>)) = 0"
    "dkgRoundID ((twoRounds 1)\<lparr>dkgNumBlocks := 1\<rparr>) = 2"
    by (simp_all add: twoRounds_def)
  have p: "fired (snd (CheckDKGTime ?D 95 [] ?m)) = [EventDKGKeyChange 95]"
    using C7_check_dkg_time [of ?m 95 ?D "[]"] a by (simp add: promoteNext_def FireEvent_def)
  have q: "verifier (snd (CheckDKGTime ?D 95 [] ?m)) = Some (Verifier 7)
           \<and> nextVerifier (snd (CheckDKGTime ?D 95 [] ?m)) = None
           \<and> changeHeight (snd (CheckDKGTime ?D 95 [] ?m)) = 0"
    using C7_check_dkg_time [of ?m 95 ?D "[]", THEN conjunct1, rule_format, OF a(1)] a(2)
    by simp
  have r: "dkgRoundID (snd (CheckDKGTime ?D 200 [] (twoRounds 1))) = 3"
    using C7_check_dkg_time [of "twoRounds 1" 200 ?D "[]", THEN conjunct2, THEN conjunct1,
        rule_format, OF b(1), THEN conjunct2] b(2)
    by simp
  have s: "dkgRoundID (snd (CheckDKGTime ?D 0 [] (twoRounds 1))) = 2"
    using C7_check_dkg_time [of "twoRounds 1" 0 ?D "[]", THEN conjunct2, THEN conjunct2,
        rule_format, OF c(1), THEN conjunct2] b(2)
    by simp
  have t: "dkgRoundID (snd (CheckDKGTime ?D 1 [] ((twoRounds 1)\<lparr>dkgNumBlocks := 1\<rparr>))) = 2"
    using C7_check_dkg_time [of "(twoRounds 1)\<lparr>dkgNumBlocks := 1\<rparr>" 1 ?D "[]", THEN conjunct2,
        THEN conjunct2, rule_format, OF d(1), THEN conjunct2] d(3)
    by simp
  from p q r s t show ?thesis by simp
qed

section \<open>The on-chain sink\<close>

text \<open>
  C3. A call of \<open>sendMsg\<close> whose message passes \<open>ValidateBasic\<close> adds one to the builder's
  sequence number (a \<open>uint64\<close>), whether the broadcast succeeds or fails, and returns the error
  of the broadcast, if any.
\<close>

theorem C3_sequence_advances:
  assumes "ValidateBasic (NewMsgSendDKGData data (GetFromAddress (cli m))) = None"
  shows "Sequence (txBldr (snd (sendMsg ValidateBasic GenerateOrBroadcastMsgs data m)))
           = Sequence (txBldr m) + 1
         \<and> fst (sendMsg ValidateBasic GenerateOrBroadcastMsgs data m)
             = (case fst (GenerateOrBroadcastMsgs (cli m) (txBldr m)
                            [NewMsgSendDKGData data (GetFromAddress (cli m))] False (node m)) of
                  Some e \<Rightarrow> Some (Errorf ''failed to broadcast msg'' e)
                | None \<Rightarrow> None)"
  using assms
  by (simp add: sendMsg_def Let_def Sequence_def WithSequence_def split: prod.splits option.splits)

theorem C3_sequence_advances_witness:
  "Sequence (txBldr (snd (sendMsg rejectEmptyOwner (countingBroadcast True)
      (Data (share DKGDeal 1 [1] [1])) (onChain [9])))) = 6
   \<and> fst (sendMsg rejectEmptyOwner (countingBroadcast True)
      (Data (share DKGDeal 1 [1] [1])) (onChain [9])) = None
   \<and> Sequence (txBldr (snd (sendMsg rejectEmptyOwner (countingBroadcast False)
      (Data (share DKGDeal 1 [1] [1])) (onChain [9])))) = 6
   \<and> fst (sendMsg rejectEmptyOwner (countingBroadcast False)
      (Data (share DKGDeal 1 [1] [1])) (onChain [9]))
       = Some (Errorf ''failed to broadcast msg'' (Err ''broadcast failed''))"
proof -
  have valid: "rejectEmptyOwner (NewMsgSendDKGData (Data (share DKGDeal 1 [1] [1]))
                 (GetFromAddress (cli (onChain [9])))) = None"
    by (simp add: rejectEmptyOwner_def NewMsgSendDKGData_def GetFromAddress_def onChain_def)
  have seq: "Sequence (txBldr (onChain [9])) + 1 = 6"
    by (simp add: Sequence_def onChain_def)
  show ?thesis
    using C3_sequence_advances [where ValidateBasic = rejectEmptyOwner
          and data = "Data (share DKGDeal 1 [1] [1])" and m = "onChain [9]"
          and GenerateOrBroadcastMsgs = "countingBroadcast True", OF valid]
      C3_sequence_advances [where ValidateBasic = rejectEmptyOwner
          and data = "Data (share DKGDeal 1 [1] [1])" and m = "onChain [9]"
          and GenerateOrBroadcastMsgs = "countingBroadcast False", OF valid]
      seq
    by (simp add: countingBroadcast_def)
qed

text \<open>
  A message without a sender does not pass \<open>ValidateBasic\<close>: the call returns before the
  broadcast and the sequence number stays at 5.
\<close>

theorem C3_rejected_message_counterexample:
  "Sequence (txBldr (onChain [])) = 5
   \<and> Sequence (txBldr (snd (sendMsg rejectEmptyOwner (countingBroadcast True)
        (Data (share DKGDeal 1 [1] [1])) (onChain [])))) = 5
   \<and> Sequence (txBldr (snd (sendMsg rejectEmptyOwner (countingBroadcast True)
        (Data (share DKGDeal 1 [1] [1])) (onChain []))))
       \<noteq> Sequence (txBldr (onChain [])) + 1"
  by (simp add: sendMsg_def rejectEmptyOwner_def NewMsgSendDKGData_def GetFromAddress_def
      onChain_def Sequence_def)

text \<open>
  C10. When \<open>ValidateBasic\<close> rejects the message, \<open>sendMsg\<close> returns an error and the
  coordinator as it was: the sequence number is unchanged, and so is the node, whatever a
  call of \<open>GenerateOrBroadcastMsgs\<close> would have done to it, so no broadcast was attempted.
\<close>

theorem C10_invalid_message_not_broadcast:
  assumes "ValidateBasic (NewMsgSendDKGData data (GetFromAddress (cli m))) = Some e"
  shows "sendMsg ValidateBasic GenerateOrBroadcastMsgs data m
           = (Some (Errorf ''failed to validate basic'' e), m)
         \<and> Sequence (txBldr (snd (sendMsg ValidateBasic GenerateOrBroadcastMsgs data m)))
             = Sequence (txBldr m)
         \<and> node (snd (sendMsg ValidateBasic GenerateOrBroadcastMsgs data m)) = node m"
  using assms by (simp add: sendMsg_def Let_def)

text \<open>On the node that counts them, the number of attempted broadcasts is still 0.\<close>

theorem C10_invalid_message_not_broadcast_witness:
  "fst (sendMsg rejectEmptyOwner (countingBroadcast True) (Data (share DKGDeal 1 [1] [1]))
      (onChain [])) = Some (Errorf ''failed to validate basic'' (Err ''empty owner''))
   \<and> node (snd (sendMsg rejectEmptyOwner (countingBroadcast True)
        (Data (share DKGDeal 1 [1] [1])) (onChain []))) = 0
   \<and> sequence (txBldr (snd (sendMsg rejectEmptyOwner (countingBroadcast True)
        (Data (share DKGDeal 1 [1] [1])) (onChain [])))) = 5"
proof -
  have invalid: "rejectEmptyOwner (NewMsgSendDKGData (Data (share DKGDeal 1 [1] [1]))
                   (GetFromAddress (cli (onChain [])))) = Some (Err ''empty owner'')"
    by (simp add: rejectEmptyOwner_def NewMsgSendDKGData_def GetFromAddress_def onChain_def)
  show ?thesis
    using C10_invalid_message_not_broadcast [where ValidateBasic = rejectEmptyOwner
          and data = "Data (share DKGDeal 1 [1] [1])" and m = "onChain []"
          and GenerateOrBroadcastMsgs = "countingBroadcast True", OF invalid]
    by (simp add: onChain_def)
qed

section \<open>Processing a block\<close>

text \<open>
  C6. When the seven buckets have been processed without an error, \<open>ProcessBlock\<close> calls
  \<open>GetVerifier\<close> on the dealer as it then is, and returns \<open>(nil, true)\<close> when a verifier is
  there, \<open>(nil, false)\<close> when the error is \<open>ErrDKGVerifierNotReady\<close>, and for any other error
  that error, as "DKG round failed", with \<open>false\<close>.
\<close>

theorem C6_verifier_after_buckets:
  assumes "processBuckets D Q sevenTypes m = (None, m1)"
    and "GetVerifier D m1 = ((v, verr), m2)"
  shows "ProcessBlock D Q m =
           ((case verr of
               None \<Rightarrow> (None, True)
             | Some err \<Rightarrow>
                 if err = ErrDKGVerifierNotReady then (None, False)
                 else (Some (Errorf ''DKG round failed'' err), False)), m2)"
  using assms by (simp add: ProcessBlock_def sevenTypes_def split: option.splits)

lemmas node_defs = sevenTypes_def getDKGMessages_def smallNode_def decodeBytes_def
  dkgDataPath_def countingDealer_def countingHandler_def share_def

theorem C6_verifier_after_buckets_witness:
  "ProcessBlock (countingDealer ErrDKGVerifierNotReady) (smallNode [2]) 0 = ((None, True), 2)
   \<and> ProcessBlock (countingDealer ErrDKGVerifierNotReady) (smallNode []) 0 = ((None, False), 1)
   \<and> ProcessBlock (countingDealer ErrDKGVerifierNotReady) (smallNode [2, 3]) 0
       = ((Some (Errorf ''DKG round failed'' (Err ''round failed'')), False), 3)"
proof -
  let ?D = "countingDealer ErrDKGVerifierNotReady"
  have b2: "processBuckets ?D (smallNode [2]) sevenTypes 0 = (None, 2)"
    by (simp add: node_defs)
  have b1: "processBuckets ?D (smallNode []) sevenTypes 0 = (None, 1)"
    by (simp add: node_defs)
  have b3: "processBuckets ?D (smallNode [2, 3]) sevenTypes 0 = (None, 3)"
    by (simp add: node_defs)
  have v2: "GetVerifier ?D 2 = ((Some (Verifier 7), None), 2)"
    by (simp add: countingDealer_def)
  have v1: "GetVerifier ?D 1 = ((None, Some ErrDKGVerifierNotReady), 1)"
    by (simp add: countingDealer_def)
  have v3: "GetVerifier ?D 3 = ((None, Some (Err ''round failed'')), 3)"
    by (simp add: countingDealer_def)
  show ?thesis
    using C6_verifier_after_buckets [OF b2 v2] C6_verifier_after_buckets [OF b1 v1]
      C6_verifier_after_buckets [OF b3 v3]
    by simp
qed

section \<open>The order of the calls in a block\<close>

lemma handlerFor_recording:
  "handlerFor (recordingDealer D) t data = logged (Handled t data) (handlerFor D t data)"
  by (cases t) (simp_all add: recordingDealer_def)

lemma getDKGMessages_recording:
  "getDKGMessages (recordingRpc Q) t (m, log)
     = (fst (getDKGMessages Q t m), snd (getDKGMessages Q t m),
        log @ [Queried (dkgDataPath t) (fst (QueryWithData Q (dkgDataPath t) m))])"
  by (simp add: getDKGMessages_def recordingRpc_def logged_def split: prod.splits option.splits)

lemma handleMessages_recording_ok:
  "fst (handleMessages h ms m) = None \<Longrightarrow>
   handleMessages (\<lambda>data. logged (Handled t data) (h data)) ms (m, log)
     = (None, snd (handleMessages h ms m), log @ map (\<lambda>x. Handled t (SendData x) None) ms)"
proof (induction ms arbitrary: m log)
  case Nil
  show ?case by simp
next
  case (Cons msg ms)
  obtain r m1 where step: "h (SendData msg) m = (r, m1)"
    by (cases "h (SendData msg) m")
  with Cons.prems have r: "r = None" and rest: "fst (handleMessages h ms m1) = None"
    by (simp_all split: option.splits)
  show ?case
    using step r Cons.IH [OF rest, of "log @ [Handled t (SendData msg) None]"]
    by (simp add: logged_def)
qed

lemma handleMessages_recording_error:
  "fst (handleMessages h ms m) = Some err \<Longrightarrow>
   \<exists>pre msg post e. ms = pre @ msg # post \<and> err = Errorf ''failed to handle message'' e
     \<and> handleMessages (\<lambda>data. logged (Handled t data) (h data)) ms (m, log)
         = (Some err, snd (handleMessages h ms m),
            log @ map (\<lambda>x. Handled t (SendData x) None) pre @ [Handled t (SendData msg) (Some e)])"
proof (induction ms arbitrary: m log)
  case Nil
  then show ?case by simp
next
  case (Cons msg ms)
  obtain r m1 where step: "h (SendData msg) m = (r, m1)"
    by (cases "h (SendData msg) m")
  show ?case
  proof (cases r)
    case (Some e)
    with step Cons.prems have err: "err = Errorf ''failed to handle message'' e"
      by simp
    have run: "handleMessages (\<lambda>data. logged (Handled t data) (h data)) (msg # ms) (m, log)
         = (Some err, snd (handleMessages h (msg # ms) m),
            log @ map (\<lambda>x. Handled t (SendData x) None) [] @ [Handled t (SendData msg) (Some e)])"
      using step Some err by (simp add: logged_def)
    have split: "msg # ms = [] @ msg # ms" by simp
    from split err run show ?thesis by (intro exI conjI)
  next
    case None
    with step Cons.prems have rest: "fst (handleMessages h ms m1) = Some err"
      by simp
    from Cons.IH [OF rest, of "log @ [Handled t (SendData msg) None]"]
    obtain pre msg' post e where
      ms: "ms = pre @ msg' # post" and err: "err = Errorf ''failed to handle message'' e"
      and run: "handleMessages (\<lambda>data. logged (Handled t data) (h data)) ms
                  (m1, log @ [Handled t (SendData msg) None])
                = (Some err, snd (handleMessages h ms m1),
                   (log @ [Handled t (SendData msg) None])
                     @ map (\<lambda>x. Handled t (SendData x) None) pre
                     @ [Handled t (SendData msg') (Some e)])"
      by (elim exE conjE)
    have split: "msg # ms = (msg # pre) @ msg' # post"
      using ms by simp
    have run': "handleMessages (\<lambda>data. logged (Handled t data) (h data)) (msg # ms) (m, log)
         = (Some err, snd (handleMessages h (msg # ms) m),
            log @ map (\<lambda>x. Handled t (SendData x) None) (msg # pre)
              @ [Handled t (SendData msg') (Some e)])"
      using step None run by (simp add: logged_def)
    from split err run' show ?thesis by (intro exI conjI)
  qed
qed


lemma handlerFor_recording_fun:
  "handlerFor (recordingDealer D) t = (\<lambda>data. logged (Handled t data) (handlerFor D t data))"
  by (rule ext) (rule handlerFor_recording)

lemma processBuckets_recording:
  "\<exists>blog.
     processBuckets (recordingDealer D) (recordingRpc Q) ts (m, log)
       = (fst (processBuckets D Q ts m), snd (processBuckets D Q ts m), log @ blog)
     \<and> visits (gobDecode Q) ts blog (fst (processBuckets D Q ts m))"
proof (induction ts arbitrary: m log)
  case Nil
  have "processBuckets (recordingDealer D) (recordingRpc Q) [] (m, log)
          = (fst (processBuckets D Q [] m), snd (processBuckets D Q [] m), log @ [])"
    by simp
  moreover have "visits (gobDecode Q) [] [] (fst (processBuckets D Q [] m))"
    by (simp add: visits_end)
  ultimately show ?case by (intro exI conjI)
next
  case (Cons t ts)
  let ?path = "dkgDataPath t"
  obtain res qe m1 where q: "QueryWithData Q ?path m = ((res, qe), m1)"
    by (metis prod.exhaust)
  obtain dat de where d: "gobDecode Q res = (dat, de)"
    by (cases "gobDecode Q res")
  have rq: "getDKGMessages (recordingRpc Q) t (m, log)
              = (fst (getDKGMessages Q t m), m1, log @ [Queried ?path (res, qe)])"
    using q by (simp add: getDKGMessages_recording) (simp add: getDKGMessages_def split: option.splits prod.splits)
  show ?case
  proof (cases qe)
    case (Some e)
    let ?r = "Some (Errorf ''failed to getDKGMessages'' (Errorf ''failed to query for DKG data'' e))"
    have g: "getDKGMessages Q t m = (([], Some (Errorf ''failed to query for DKG data'' e)), m1)"
      using q Some by (simp add: getDKGMessages_def)
    have plain: "processBuckets D Q (t # ts) m = (?r, m1)"
      using g by simp
    have run: "processBuckets (recordingDealer D) (recordingRpc Q) (t # ts) (m, log)
                 = (fst (processBuckets D Q (t # ts) m), snd (processBuckets D Q (t # ts) m),
                    log @ [Queried ?path (res, Some e)])"
      using rq g Some plain by simp
    have "visits (gobDecode Q) (t # ts) [Queried ?path (res, Some e)]
            (fst (processBuckets D Q (t # ts) m))"
      unfolding plain fst_conv by (rule visits_query_error)
    with run show ?thesis by (intro exI conjI)
  next
    case None
    note qnone = None
    show ?thesis
    proof (cases de)
      case (Some e)
      let ?r = "Some (Errorf ''failed to getDKGMessages'' (Errorf ''failed to decode DKG data'' e))"
      have g: "getDKGMessages Q t m = (([], Some (Errorf ''failed to decode DKG data'' e)), m1)"
        using q d qnone Some by (simp add: getDKGMessages_def)
      have plain: "processBuckets D Q (t # ts) m = (?r, m1)"
        using g by simp
      have run: "processBuckets (recordingDealer D) (recordingRpc Q) (t # ts) (m, log)
                   = (fst (processBuckets D Q (t # ts) m), snd (processBuckets D Q (t # ts) m),
                      log @ [Queried ?path (res, None)])"
        using rq g qnone plain by simp
      have "visits (gobDecode Q) (t # ts) [Queried ?path (res, None)]
              (fst (processBuckets D Q (t # ts) m))"
        unfolding plain fst_conv using d Some by (intro visits_decode_error) simp
      with run show ?thesis by (intro exI conjI)
    next
      case None
      have g: "getDKGMessages Q t m = ((dat, None), m1)"
        using q d qnone None by (simp add: getDKGMessages_def)
      have dec: "gobDecode Q res = (dat, None)"
        using d None by simp
      let ?h = "handlerFor D t"
      show ?thesis
      proof (cases "fst (handleMessages ?h dat m1)")
        case (Some err)
        from handleMessages_recording_error [OF Some, of t "log @ [Queried ?path (res, None)]"]
        obtain pre msg post e where
          dat: "dat = pre @ msg # post" and err: "err = Errorf ''failed to handle message'' e"
          and hrun: "handleMessages (\<lambda>data. logged (Handled t data) (?h data)) dat
                       (m1, log @ [Queried ?path (res, None)])
                     = (Some err, snd (handleMessages ?h dat m1),
                        (log @ [Queried ?path (res, None)])
                          @ map (\<lambda>x. Handled t (SendData x) None) pre
                          @ [Handled t (SendData msg) (Some e)])"
          by (elim exE conjE)
        have plain: "processBuckets D Q (t # ts) m = (Some err, snd (handleMessages ?h dat m1))"
          using g Some by (auto split: prod.splits)
        have run: "processBuckets (recordingDealer D) (recordingRpc Q) (t # ts) (m, log)
                     = (fst (processBuckets D Q (t # ts) m), snd (processBuckets D Q (t # ts) m),
                        log @ (Queried ?path (res, None)
                                 # map (\<lambda>x. Handled t (SendData x) None) pre
                                 @ [Handled t (SendData msg) (Some e)]))"
          using rq g hrun plain qnone by (simp add: handlerFor_recording_fun)
        have "visits (gobDecode Q) (t # ts)
                (Queried ?path (res, None) # map (\<lambda>x. Handled t (SendData x) None) pre
                   @ [Handled t (SendData msg) (Some e)])
                (fst (processBuckets D Q (t # ts) m))"
          unfolding plain fst_conv err using dec dat by (intro visits_handler_error) simp
        with run show ?thesis by (intro exI conjI)
      next
        case None
        let ?m2 = "snd (handleMessages ?h dat m1)"
        let ?log2 = "(log @ [Queried ?path (res, None)]) @ map (\<lambda>x. Handled t (SendData x) None) dat"
        have hrun: "handleMessages (\<lambda>data. logged (Handled t data) (?h data)) dat
                      (m1, log @ [Queried ?path (res, None)]) = (None, ?m2, ?log2)"
          by (rule handleMessages_recording_ok [OF None])
        have plain: "processBuckets D Q (t # ts) m = processBuckets D Q ts ?m2"
          using g None by (auto split: prod.splits)
        from Cons.IH [of ?m2 ?log2] obtain blog where
          rest: "processBuckets (recordingDealer D) (recordingRpc Q) ts (?m2, ?log2)
                   = (fst (processBuckets D Q ts ?m2), snd (processBuckets D Q ts ?m2), ?log2 @ blog)"
          and v: "visits (gobDecode Q) ts blog (fst (processBuckets D Q ts ?m2))"
          by (elim exE conjE)
        have run: "processBuckets (recordingDealer D) (recordingRpc Q) (t # ts) (m, log)
                     = (fst (processBuckets D Q (t # ts) m), snd (processBuckets D Q (t # ts) m),
                        log @ (Queried ?path (res, None)
                                 # map (\<lambda>x. Handled t (SendData x) None) dat @ blog))"
          using rq g hrun rest plain qnone by (simp add: handlerFor_recording_fun)
        have "visits (gobDecode Q) (t # ts)
                (Queried ?path (res, None) # map (\<lambda>x. Handled t (SendData x) None) dat @ blog)
                (fst (processBuckets D Q (t # ts) m))"
          unfolding plain using dec v by (rule visits_bucket)
        with run show ?thesis by (intro exI conjI)
      qed
    qed
  qed
qed


lemma GetVerifier_recording:
  "GetVerifier (recordingDealer D) (m, log)
     = (fst (GetVerifier D m), snd (GetVerifier D m), log @ [GotVerifier (fst (GetVerifier D m))])"
  by (simp add: recordingDealer_def logged_def split: prod.splits)

text \<open>
  C5. Run with the recording dealer and client, \<open>ProcessBlock\<close> returns what it returns
  without them, and the calls it makes are a log \<open>blog\<close> of visiting the seven data types
  in the order PubKey, Deal, Response, Justification, Commits, Complaint,
  ReconstructCommit: each bucket is queried, each of its messages goes in order to the
  handler of that type. When a query, a decoding or a handler fails, that call is the
  last one made and \<open>ProcessBlock\<close> returns the error (under the prefix of the failing
  step) with \<open>false\<close>; otherwise the one call that follows is \<open>GetVerifier\<close>.
\<close>

theorem C5_buckets_in_fixed_order:
  "\<exists>blog r.
     visits (gobDecode Q) sevenTypes blog r
     \<and> (case r of
          Some err \<Rightarrow>
            ProcessBlock D Q m = ((Some err, False), snd (ProcessBlock D Q m))
            \<and> ProcessBlock (recordingDealer D) (recordingRpc Q) (m, [])
                = ((Some err, False), snd (ProcessBlock D Q m), blog)
        | None \<Rightarrow>
            \<exists>v. ProcessBlock (recordingDealer D) (recordingRpc Q) (m, [])
                  = (fst (ProcessBlock D Q m), snd (ProcessBlock D Q m), blog @ [GotVerifier v]))"
proof -
  obtain r m1 where plain: "processBuckets D Q sevenTypes m = (r, m1)"
    by (cases "processBuckets D Q sevenTypes m")
  from processBuckets_recording [of D Q sevenTypes m "[]"] obtain blog where
    run: "processBuckets (recordingDealer D) (recordingRpc Q) sevenTypes (m, []) = (r, m1, blog)"
    and v: "visits (gobDecode Q) sevenTypes blog r"
    unfolding plain by auto
  have "case r of
          Some err \<Rightarrow>
            ProcessBlock D Q m = ((Some err, False), snd (ProcessBlock D Q m))
            \<and> ProcessBlock (recordingDealer D) (recordingRpc Q) (m, [])
                = ((Some err, False), snd (ProcessBlock D Q m), blog)
        | None \<Rightarrow>
            \<exists>v. ProcessBlock (recordingDealer D) (recordingRpc Q) (m, [])
                  = (fst (ProcessBlock D Q m), snd (ProcessBlock D Q m), blog @ [GotVerifier v])"
  proof (cases r)
    case (Some err)
    have "ProcessBlock D Q m = ((Some err, False), m1)"
      using plain Some unfolding ProcessBlock_def sevenTypes_def [symmetric] by simp
    moreover have "ProcessBlock (recordingDealer D) (recordingRpc Q) (m, [])
                     = ((Some err, False), m1, blog)"
      using run Some unfolding ProcessBlock_def sevenTypes_def [symmetric] by simp
    ultimately show ?thesis using Some by simp
  next
    case None
    obtain x err m2 where g: "GetVerifier D m1 = ((x, err), m2)"
      by (metis prod.exhaust)
    have a: "ProcessBlock D Q m
               = (case err of None \<Rightarrow> (None, True)
                  | Some e \<Rightarrow> if e = ErrDKGVerifierNotReady then (None, False)
                              else (Some (Errorf ''DKG round failed'' e), False), m2)"
      using plain None g unfolding ProcessBlock_def sevenTypes_def [symmetric]
      by (simp split: option.splits)
    have b: "ProcessBlock (recordingDealer D) (recordingRpc Q) (m, [])
               = (case err of None \<Rightarrow> (None, True)
                  | Some e \<Rightarrow> if e = ErrDKGVerifierNotReady then (None, False)
                              else (Some (Errorf ''DKG round failed'' e), False),
                  m2, blog @ [GotVerifier (x, err)])"
      using run None g unfolding ProcessBlock_def sevenTypes_def [symmetric]
      by (simp add: GetVerifier_recording split: option.splits)
    show ?thesis
      using None a b by simp
  qed
  with v show ?thesis by blast
qed

text \<open>
  A run in which the second message of the Deal bucket has an empty payload: the third
  message of that bucket and the five later buckets are not touched.
\<close>

theorem C5_buckets_in_fixed_order_witness:
  "visits decodeBytes sevenTypes
     [Queried ''custom/randapp/dkgData/0'' ([1], None),
      Handled DKGPubKey (Data (share DKGPubKey 0 [1] [1])) None,
      Queried ''custom/randapp/dkgData/1'' ([2, 0, 4], None),
      Handled DKGDeal (Data (share DKGPubKey 0 [2] [1])) None,
      Handled DKGDeal (Data (share DKGPubKey 0 [] [1])) (Some (Err ''empty payload''))]
     (Some (Errorf ''failed to handle message'' (Err ''empty payload'')))
   \<and> ProcessBlock (countingDealer ErrDKGVerifierNotReady) (smallNode [2, 0, 4]) 0
       = ((Some (Errorf ''failed to handle message'' (Err ''empty payload'')), False), 2)"
proof -
  let ?D = "countingDealer ErrDKGVerifierNotReady"
  let ?Q = "smallNode [2, 0, 4]"
  let ?log = "[Queried ''custom/randapp/dkgData/0'' ([1], None),
      Handled DKGPubKey (Data (share DKGPubKey 0 [1] [1])) None,
      Queried ''custom/randapp/dkgData/1'' ([2, 0, 4], None),
      Handled DKGDeal (Data (share DKGPubKey 0 [2] [1])) None,
      Handled DKGDeal (Data (share DKGPubKey 0 [] [1])) (Some (Err ''empty payload''))]"
  have rec: "ProcessBlock (recordingDealer ?D) (recordingRpc ?Q) (0, [])
               = ((Some (Errorf ''failed to handle message'' (Err ''empty payload'')), False),
                  2, ?log)"
    by (simp add: ProcessBlock_def node_defs recordingDealer_def recordingRpc_def logged_def)
  have dec: "gobDecode ?Q = decodeBytes"
    by (simp add: smallNode_def)
  from C5_buckets_in_fixed_order [of ?Q ?D 0] obtain blog r where
    v: "visits decodeBytes sevenTypes blog r"
    and c: "case r of
          Some err \<Rightarrow>
            ProcessBlock ?D ?Q 0 = ((Some err, False), snd (ProcessBlock ?D ?Q 0))
            \<and> ProcessBlock (recordingDealer ?D) (recordingRpc ?Q) (0, [])
                = ((Some err, False), snd (ProcessBlock ?D ?Q 0), blog)
        | None \<Rightarrow>
            \<exists>v. ProcessBlock (recordingDealer ?D) (recordingRpc ?Q) (0, [])
                  = (fst (ProcessBlock ?D ?Q 0), snd (ProcessBlock ?D ?Q 0), blog @ [GotVerifier v])"
    unfolding dec by blast
  show ?thesis
  proof (cases r)
    case None
    with c rec have False by auto
    then show ?thesis ..
  next
    case (Some err)
    with c rec have "blog = ?log" "err = Errorf ''failed to handle message'' (Err ''empty payload'')"
      "ProcessBlock ?D ?Q 0 = ((Some err, False), 2)"
      by auto
    with v Some show ?thesis by simp
  qed
qed

end
